theory Spec2Isabelle
  imports Complex_Main
begin

section \<open>Strings\<close>

text \<open>
  Labels are JavaScript strings. They are modelled as \<^typ>\<open>string\<close>; \<open>toLowerCase\<close>
  maps the ASCII capitals to their lower-case letters and leaves every other character
  as it is. \<open>str_includes s p\<close> is \<open>s.includes(p)\<close>: \<open>p\<close> occurs in \<open>s\<close> as a
  contiguous run of characters.
\<close>

definition toLowerCase_char :: "char \<Rightarrow> char" where
  "toLowerCase_char ch =
     (let n = (of_char ch :: nat)
      in if 65 \<le> n \<and> n \<le> 90 then char_of (n + 32) else ch)"

definition toLowerCase :: "string \<Rightarrow> string" where
  "toLowerCase s = map toLowerCase_char s"

fun startsWith :: "string \<Rightarrow> string \<Rightarrow> bool" where
  "startsWith s [] = True"
| "startsWith [] (p # ps) = False"
| "startsWith (x # xs) (p # ps) = (x = p \<and> startsWith xs ps)"

fun str_includes :: "string \<Rightarrow> string \<Rightarrow> bool" where
  "str_includes [] p = (p = [])"
| "str_includes (x # xs) p = (startsWith (x # xs) p \<or> str_includes xs p)"

text \<open>\<open>s || d\<close> on strings: the empty string is falsy.\<close>

definition str_or :: "string \<Rightarrow> string \<Rightarrow> string" where
  "str_or s d = (if s = [] then d else s)"


section \<open>Scene graph, materials and the part index\<close>

text \<open>
  Material objects live in a store and are reached through references: two meshes, or
  two entries of one material array, may hold the same material object. A mesh's
  \<open>material\<close> property is absent, one material object, or an array of material objects.
  A colour is kept as the value \<open>new THREE.Color\<close> is built from.
\<close>

record material_obj =
  mname :: string
  color :: string

type_synonym store = "nat \<Rightarrow> material_obj"

datatype material_binding = NoMaterial | Single nat | Multi "nat list"

record node =
  oid :: nat
  name :: string
  isMesh :: bool
  material :: material_binding

datatype object3d = Object3D node "object3d list"

text \<open>\<open>object.traverse(callback)\<close> calls the callback on the object, then traverses each child.\<close>

fun traverse :: "object3d \<Rightarrow> node list" where
  "traverse (Object3D n cs) = n # concat (map traverse cs)"

record house_parts =
  walls :: "node list"
  roof :: "node list"
  doors :: "node list"
  windows :: "node list"
  other :: "node list"

record part_item =
  textContent :: string
  borderLeft :: string

record analysis =
  meshCount :: nat
  materials :: "string set"
  houseParts :: house_parts
  partsList :: "part_item list"

definition materialCount_of :: "material_binding \<Rightarrow> nat" where
  "materialCount_of m = (case m of Multi rs \<Rightarrow> length rs | Single r \<Rightarrow> 1 | NoMaterial \<Rightarrow> 0)"

definition add_materials :: "store \<Rightarrow> material_binding \<Rightarrow> string set \<Rightarrow> string set" where
  "add_materials \<sigma> m ms =
     (case m of
        NoMaterial \<Rightarrow> ms
      | Multi rs \<Rightarrow> fold (\<lambda>r acc. insert (str_or (mname (\<sigma> r)) ''Unnamed'') acc) rs ms
      | Single r \<Rightarrow> insert (str_or (mname (\<sigma> r)) ''Unnamed'') ms)"

definition add_item :: "string \<Rightarrow> string \<Rightarrow> analysis \<Rightarrow> analysis" where
  "add_item txt border st =
     st\<lparr>partsList := partsList st @ [\<lparr>textContent = txt, borderLeft = border\<rparr>]\<rparr>"

text \<open>The callback that \<open>analyzeModel\<close> passes to \<open>traverse\<close>.\<close>

definition visit :: "store \<Rightarrow> node \<Rightarrow> analysis \<Rightarrow> analysis" where
  "visit \<sigma> child st =
     (if isMesh child then
        (let st1 = st\<lparr>meshCount := meshCount st + 1,
                      materials := add_materials \<sigma> (material child) (materials st)\<rparr>;
             lname = toLowerCase (name child);
             txt = str_or (name child) ''Unnamed Part'';
             materialCount = materialCount_of (material child);
             hp = houseParts st1
         in
           if str_includes lname ''cottage'' \<and> materialCount \<ge> 4 then
             add_item (txt @ '' (Multi-Material - All Controls Active)'') ''4px solid #4CAF50''
               (st1\<lparr>houseParts := hp\<lparr>walls := walls hp @ [child], roof := roof hp @ [child],
                                      doors := doors hp @ [child],
                                      windows := windows hp @ [child]\<rparr>\<rparr>)
           else if str_includes lname ''cottage'' \<or> str_includes lname ''house''
                   \<or> meshCount st1 = 1 then
             add_item (txt @ '' (Walls Control = Entire Cottage)'') ''4px solid #D2B48C''
               (st1\<lparr>houseParts := hp\<lparr>walls := walls hp @ [child]\<rparr>\<rparr>)
           else if str_includes lname ''wall'' \<or> str_includes lname ''siding''
                   \<or> str_includes lname ''exterior'' then
             add_item txt ''4px solid #D2B48C''
               (st1\<lparr>houseParts := hp\<lparr>walls := walls hp @ [child]\<rparr>\<rparr>)
           else if str_includes lname ''roof'' \<or> str_includes lname ''shingle''
                   \<or> str_includes lname ''tile'' then
             add_item txt ''4px solid #8B4513''
               (st1\<lparr>houseParts := hp\<lparr>roof := roof hp @ [child]\<rparr>\<rparr>)
           else if str_includes lname ''door'' \<or> str_includes lname ''entrance'' then
             add_item txt ''4px solid #654321''
               (st1\<lparr>houseParts := hp\<lparr>doors := doors hp @ [child]\<rparr>\<rparr>)
           else if str_includes lname ''window'' \<or> str_includes lname ''glass''
                   \<or> str_includes lname ''pane'' then
             add_item txt ''4px solid #87CEEB''
               (st1\<lparr>houseParts := hp\<lparr>windows := windows hp @ [child]\<rparr>\<rparr>)
           else
             add_item txt ''4px solid #888''
               (st1\<lparr>houseParts := hp\<lparr>other := other hp @ [child]\<rparr>\<rparr>))
      else st)"

definition analysis0 :: analysis where
  "analysis0 =
     \<lparr>meshCount = 0, materials = {},
      houseParts = \<lparr>walls = [], roof = [], doors = [], windows = [], other = []\<rparr>,
      partsList = []\<rparr>"

text \<open>
  \<open>analyzeModel\<close> empties the five lists and the parts panel, then runs the callback over
  the traversal. The result holds the part index, the mesh count, the set of material
  names (its cardinality is the material count shown) and the entries of the parts panel.
\<close>

definition analyzeModel :: "store \<Rightarrow> object3d \<Rightarrow> analysis" where
  "analyzeModel \<sigma> object = fold (visit \<sigma>) (traverse object) analysis0"


text \<open>What the claims about classification speak of.\<close>

definition composite :: "node \<Rightarrow> bool" where
  "composite n \<longleftrightarrow>
     str_includes (toLowerCase (name n)) ''cottage'' \<and> 4 \<le> materialCount_of (material n)"

definition walls_keyword :: "string \<Rightarrow> bool" where
  "walls_keyword l \<longleftrightarrow>
     str_includes l ''wall'' \<or> str_includes l ''siding'' \<or> str_includes l ''exterior''"

definition roof_keyword :: "string \<Rightarrow> bool" where
  "roof_keyword l \<longleftrightarrow>
     str_includes l ''roof'' \<or> str_includes l ''shingle'' \<or> str_includes l ''tile''"

definition doors_keyword :: "string \<Rightarrow> bool" where
  "doors_keyword l \<longleftrightarrow> str_includes l ''door'' \<or> str_includes l ''entrance''"

definition windows_keyword :: "string \<Rightarrow> bool" where
  "windows_keyword l \<longleftrightarrow>
     str_includes l ''window'' \<or> str_includes l ''glass'' \<or> str_includes l ''pane''"

text \<open>How often a node is listed under walls, roof, doors, windows and other, in this order.\<close>

definition occurrences :: "house_parts \<Rightarrow> node \<Rightarrow> nat list" where
  "occurrences hp n =
     [count_list (walls hp) n, count_list (roof hp) n, count_list (doors hp) n,
      count_list (windows hp) n, count_list (other hp) n]"


section \<open>Colouring\<close>

datatype error = TypeError

text \<open>
  \<open>houseParts[partType]\<close>: the object has the five own properties and no other; any
  other name yields \<open>undefined\<close> or a member inherited from \<open>Object.prototype\<close>, neither
  of which is an array (\<open>None\<close>).
\<close>

definition houseParts_lookup :: "house_parts \<Rightarrow> string \<Rightarrow> node list option" where
  "houseParts_lookup hp partType =
     (if partType = ''walls'' then Some (walls hp)
      else if partType = ''roof'' then Some (roof hp)
      else if partType = ''doors'' then Some (doors hp)
      else if partType = ''windows'' then Some (windows hp)
      else if partType = ''other'' then Some (other hp)
      else None)"

definition getPartMaterialIndex :: "string \<Rightarrow> int" where
  "getPartMaterialIndex partType =
     (if partType = ''walls'' then 0
      else if partType = ''roof'' then 1
      else if partType = ''doors'' then 2
      else if partType = ''windows'' then 3
      else - 1)"

definition setColor :: "nat \<Rightarrow> string \<Rightarrow> store \<Rightarrow> store" where
  "setColor r colorObj \<sigma> = \<sigma>(r := (\<sigma> r)\<lparr>color := colorObj\<rparr>)"

text \<open>The body of \<open>parts.forEach\<close> in \<open>updatePartColor\<close>.\<close>

definition updatePart :: "string \<Rightarrow> string \<Rightarrow> node \<Rightarrow> store \<Rightarrow> store" where
  "updatePart partType colorObj part \<sigma> =
     (case material part of
        NoMaterial \<Rightarrow> \<sigma>
      | Multi rs \<Rightarrow>
          (let materialIndex = getPartMaterialIndex partType
           in if materialIndex \<ge> 0 \<and> materialIndex < int (length rs)
              then setColor (rs ! nat materialIndex) colorObj \<sigma>
              else \<sigma>)
      | Single r \<Rightarrow> setColor r colorObj \<sigma>)"

text \<open>
  \<open>updatePartColor\<close> reads \<open>parts.length\<close> and calls \<open>parts.map\<close> and \<open>parts.forEach\<close>;
  where the lookup gave no array this raises a \<open>TypeError\<close> before any material is written.
\<close>

definition updatePartColor :: "house_parts \<Rightarrow> string \<Rightarrow> string \<Rightarrow> store \<Rightarrow> error + store" where
  "updatePartColor hp partType colorObj \<sigma> =
     (case houseParts_lookup hp partType of
        None \<Rightarrow> Inl TypeError
      | Some parts \<Rightarrow> Inr (fold (updatePart partType colorObj) parts \<sigma>))"

text \<open>
  Slots are positions in a node's material list. \<open>slot_color\<close> reads the colour at a
  position; \<open>read_back\<close> reads it in the store a call has returned.
\<close>

definition slots :: "node \<Rightarrow> nat list" where
  "slots n = (case material n of NoMaterial \<Rightarrow> [] | Single r \<Rightarrow> [r] | Multi rs \<Rightarrow> rs)"

definition slot_color :: "store \<Rightarrow> node \<Rightarrow> nat \<Rightarrow> string option" where
  "slot_color \<sigma> n i = (if i < length (slots n) then Some (color (\<sigma> (slots n ! i))) else None)"

definition read_back :: "node \<Rightarrow> nat \<Rightarrow> error + store \<Rightarrow> error + string option" where
  "read_back n i res = (case res of Inl e \<Rightarrow> Inl e | Inr \<sigma> \<Rightarrow> Inr (slot_color \<sigma> n i))"

text \<open>
  The slot a category resolves on a node: the only slot of a node whose material is one
  object, the Material Slot Map's index on a node whose material is an array that has
  that index.
\<close>

definition resolved :: "string \<Rightarrow> node \<Rightarrow> nat option" where
  "resolved cat n =
     (case material n of
        NoMaterial \<Rightarrow> None
      | Single r \<Rightarrow> Some 0
      | Multi rs \<Rightarrow>
          (if 0 \<le> getPartMaterialIndex cat \<and> getPartMaterialIndex cat < int (length rs)
           then Some (nat (getPartMaterialIndex cat)) else None))"

text \<open>
  The Material Slot Map as the specification gives it, and the slot the specification
  resolves for a category on a node of its list: the single slot of a node with one
  slot, the map's index on a node with several slots when the node has that slot.
\<close>

definition material_slot_map :: "string \<Rightarrow> nat option" where
  "material_slot_map cat =
     (if cat = ''walls'' then Some 0
      else if cat = ''roof'' then Some 1
      else if cat = ''doors'' then Some 2
      else if cat = ''windows'' then Some 3
      else None)"

definition resolved_slot :: "string \<Rightarrow> node \<Rightarrow> nat option" where
  "resolved_slot cat n =
     (if length (slots n) = 1 then Some 0
      else (case material_slot_map cat of
              None \<Rightarrow> None
            | Some k \<Rightarrow> if k < length (slots n) then Some k else None))"


section \<open>Render scheduling\<close>

text \<open>
  The variant of the viewer with the redraw flag. Times are the readings of
  \<open>performance.now()\<close>, as rationals; \<open>Math.round x\<close> is \<open>\<lfloor>x + 1/2\<rfloor>\<close>. The counters
  \<open>rafRequests\<close>, \<open>mixerUpdates\<close> and \<open>renders\<close> record the calls of
  \<open>requestAnimationFrame\<close>, \<open>mixer.update\<close> and \<open>renderer.render\<close>.
\<close>

record stats =
  fps :: int
  frameCount :: nat
  lastTime :: rat

record render_state =
  needsRender :: bool
  perf :: stats
  hasMixer :: bool
  rafRequests :: nat
  mixerUpdates :: nat
  renders :: nat

definition requestRender :: "render_state \<Rightarrow> render_state" where
  "requestRender st = st\<lparr>needsRender := True\<rparr>"

definition updateStats :: "rat \<Rightarrow> stats \<Rightarrow> stats" where
  "updateStats now s =
     (let s1 = s\<lparr>frameCount := frameCount s + 1\<rparr>;
          delta = now - lastTime s1
      in if delta \<ge> 1000
         then s1\<lparr>fps := \<lfloor>(of_nat (frameCount s1) * 1000) / delta + 1 / 2\<rfloor>,
                  frameCount := 0, lastTime := now\<rparr>
         else s1)"

definition animate :: "rat \<Rightarrow> render_state \<Rightarrow> render_state" where
  "animate now st =
     (let st1 = st\<lparr>rafRequests := rafRequests st + 1\<rparr>;
          st2 = st1\<lparr>perf := updateStats now (perf st1)\<rparr>
      in if needsRender st2
         then (let st3 = (if hasMixer st2 then st2\<lparr>mixerUpdates := mixerUpdates st2 + 1\<rparr>
                          else st2)
               in st3\<lparr>renders := renders st3 + 1, needsRender := False\<rparr>)
         else st2)"


section \<open>Example scenes\<close>

definition white_store :: store where
  "white_store = (\<lambda>r. \<lparr>mname = [], color = ''#ffffff''\<rparr>)"

definition mesh :: "nat \<Rightarrow> string \<Rightarrow> material_binding \<Rightarrow> node" where
  "mesh i nm m = \<lparr>oid = i, name = nm, isMesh = True, material = m\<rparr>"

definition group :: "nat \<Rightarrow> node" where
  "group i = \<lparr>oid = i, name = [], isMesh = False, material = NoMaterial\<rparr>"

definition cottage_body :: node where
  "cottage_body = mesh 1 ''CottageBody'' (Multi [0, 1, 2, 3])"

definition cottage_scene :: object3d where
  "cottage_scene = Object3D (group 0) [Object3D cottage_body []]"

definition roof_first_scene :: object3d where
  "roof_first_scene =
     Object3D (group 0)
       [Object3D (mesh 1 ''roof'' (Single 0)) [], Object3D (mesh 2 ''walls'' (Single 1)) []]"

definition front_door :: node where
  "front_door = mesh 2 ''FrontDoor_Glass'' (Single 1)"

definition front_door_alone :: object3d where
  "front_door_alone = Object3D front_door []"

definition front_door_scene :: object3d where
  "front_door_scene =
     Object3D (group 0) [Object3D (mesh 1 ''walls'' (Single 0)) [], Object3D front_door []]"

definition shared_wall :: node where
  "shared_wall = mesh 1 ''wall_a'' (Single 0)"

definition shared_roof :: node where
  "shared_roof = mesh 2 ''roof_b'' (Multi [0])"

definition shared_scene :: object3d where
  "shared_scene = Object3D (group 0) [Object3D shared_wall [], Object3D shared_roof []]"

definition left_window :: node where
  "left_window = mesh 2 ''window_left'' (Single 1)"

definition right_window :: node where
  "right_window = mesh 3 ''window_right'' (Single 1)"

definition wall_mesh :: node where
  "wall_mesh = mesh 1 ''walls'' (Single 0)"

definition twin_window_scene :: object3d where
  "twin_window_scene =
     Object3D (group 0)
       [Object3D wall_mesh [], Object3D left_window [], Object3D right_window []]"

definition dirty_state :: render_state where
  "dirty_state =
     \<lparr>needsRender = True, perf = \<lparr>fps = 60, frameCount = 0, lastTime = 0\<rparr>,
      hasMixer = False, rafRequests = 0, mixerUpdates = 0, renders = 0\<rparr>"

definition two_slot_window :: node where
  "two_slot_window = mesh 2 ''window_frame'' (Multi [1, 2])"

definition small_window :: node where
  "small_window = mesh 3 ''window_small'' (Single 3)"

definition window_scene :: object3d where
  "window_scene =
     Object3D (group 0)
       [Object3D (mesh 1 ''walls'' (Single 0)) [], Object3D two_slot_window [],
        Object3D small_window []]"


section \<open>Classification: auxiliary facts\<close>

lemma visit_not_mesh: "\<not> isMesh x \<Longrightarrow> visit \<sigma> x st = st"
  by (simp add: visit_def)

lemma meshCount_visit: "meshCount (visit \<sigma> x st) = meshCount st + (if isMesh x then 1 else 0)"
  by (simp add: visit_def Let_def add_item_def)

lemma meshCount_fold: "meshCount (fold (visit \<sigma>) xs st) = meshCount st + length (filter isMesh xs)"
  by (induction xs arbitrary: st) (simp_all add: meshCount_visit)

lemma houseParts_visit:
  "houseParts (visit \<sigma> x st) =
     (let hp = houseParts st; l = toLowerCase (name x) in
      if \<not> isMesh x then hp
      else if composite x then
        hp\<lparr>walls := walls hp @ [x], roof := roof hp @ [x], doors := doors hp @ [x],
           windows := windows hp @ [x]\<rparr>
      else if str_includes l ''cottage'' \<or> str_includes l ''house'' \<or> meshCount st = 0
        then hp\<lparr>walls := walls hp @ [x]\<rparr>
      else if walls_keyword l then hp\<lparr>walls := walls hp @ [x]\<rparr>
      else if roof_keyword l then hp\<lparr>roof := roof hp @ [x]\<rparr>
      else if doors_keyword l then hp\<lparr>doors := doors hp @ [x]\<rparr>
      else if windows_keyword l then hp\<lparr>windows := windows hp @ [x]\<rparr>
      else hp\<lparr>other := other hp @ [x]\<rparr>)"
  unfolding visit_def Let_def add_item_def composite_def walls_keyword_def roof_keyword_def
    doors_keyword_def windows_keyword_def
  by simp

lemma occurrences_visit_other:
  "n \<noteq> x \<Longrightarrow> occurrences (houseParts (visit \<sigma> x st)) n = occurrences (houseParts st) n"
  by (simp add: houseParts_visit Let_def occurrences_def)

lemma occurrences_fold_other:
  "n \<notin> set xs \<Longrightarrow> occurrences (houseParts (fold (visit \<sigma>) xs st)) n = occurrences (houseParts st) n"
  by (induction xs arbitrary: st) (simp_all add: occurrences_visit_other)

lemma occurrences_visit_composite:
  "isMesh n \<Longrightarrow> composite n \<Longrightarrow>
   occurrences (houseParts (visit \<sigma> n st)) n =
     map2 (+) (occurrences (houseParts st) n) [1, 1, 1, 1, 0]"
  by (simp add: houseParts_visit Let_def occurrences_def)

lemma occurrences_visit_plain:
  "isMesh n \<Longrightarrow> \<not> composite n \<Longrightarrow>
   sum_list (occurrences (houseParts (visit \<sigma> n st)) n) =
     sum_list (occurrences (houseParts st) n) + 1"
  by (simp add: houseParts_visit Let_def occurrences_def)

lemma occurrences_analysis0: "occurrences (houseParts analysis0) n = [0, 0, 0, 0, 0]"
  by (simp add: occurrences_def analysis0_def)

lemma analyzeModel_split:
  assumes "traverse G = pre @ n # post" "n \<notin> set pre" "n \<notin> set post"
  shows "occurrences (houseParts (analyzeModel \<sigma> G)) n =
         occurrences (houseParts (visit \<sigma> n (fold (visit \<sigma>) pre analysis0))) n"
    and "occurrences (houseParts (fold (visit \<sigma>) pre analysis0)) n = [0, 0, 0, 0, 0]"
  using assms by (simp_all add: analyzeModel_def occurrences_fold_other occurrences_analysis0)



lemma four_visit:
  "n \<in> set (walls (houseParts st)) \<and> n \<in> set (roof (houseParts st)) \<and>
   n \<in> set (doors (houseParts st)) \<and> n \<in> set (windows (houseParts st)) \<Longrightarrow>
   n \<in> set (walls (houseParts (visit \<sigma> x st))) \<and> n \<in> set (roof (houseParts (visit \<sigma> x st))) \<and>
   n \<in> set (doors (houseParts (visit \<sigma> x st))) \<and> n \<in> set (windows (houseParts (visit \<sigma> x st)))"
  by (simp add: houseParts_visit Let_def)

lemma four_visit_self:
  "isMesh n \<Longrightarrow> composite n \<Longrightarrow>
   n \<in> set (walls (houseParts (visit \<sigma> n st))) \<and> n \<in> set (roof (houseParts (visit \<sigma> n st))) \<and>
   n \<in> set (doors (houseParts (visit \<sigma> n st))) \<and> n \<in> set (windows (houseParts (visit \<sigma> n st)))"
  by (simp add: houseParts_visit Let_def)

lemma four_fold:
  "n \<in> set (walls (houseParts st)) \<and> n \<in> set (roof (houseParts st)) \<and>
   n \<in> set (doors (houseParts st)) \<and> n \<in> set (windows (houseParts st)) \<Longrightarrow>
   n \<in> set (walls (houseParts (fold (visit \<sigma>) xs st))) \<and>
   n \<in> set (roof (houseParts (fold (visit \<sigma>) xs st))) \<and>
   n \<in> set (doors (houseParts (fold (visit \<sigma>) xs st))) \<and>
   n \<in> set (windows (houseParts (fold (visit \<sigma>) xs st)))"
proof (induction xs arbitrary: st)
  case Nil
  then show ?case by simp
next
  case (Cons x xs)
  from Cons.IH [OF four_visit [OF Cons.prems]] show ?case by simp
qed

lemma four_fold_in:
  "n \<in> set xs \<Longrightarrow> isMesh n \<Longrightarrow> composite n \<Longrightarrow>
   n \<in> set (walls (houseParts (fold (visit \<sigma>) xs st))) \<and>
   n \<in> set (roof (houseParts (fold (visit \<sigma>) xs st))) \<and>
   n \<in> set (doors (houseParts (fold (visit \<sigma>) xs st))) \<and>
   n \<in> set (windows (houseParts (fold (visit \<sigma>) xs st)))"
proof (induction xs arbitrary: st)
  case Nil
  then show ?case by simp
next
  case (Cons x xs)
  show ?case
  proof (cases "x = n")
    case True
    from four_fold [OF four_visit_self [OF Cons.prems(2,3)]] True show ?thesis by simp
  next
    case False
    with Cons.prems have "n \<in> set xs" by simp
    from Cons.IH [OF this Cons.prems(2,3)] show ?thesis by simp
  qed
qed

lemma other_visit:
  "\<forall>m \<in> set (other (houseParts st)). \<not> composite m \<Longrightarrow>
   \<forall>m \<in> set (other (houseParts (visit \<sigma> x st))). \<not> composite m"
  by (simp add: houseParts_visit Let_def)

lemma other_fold:
  "\<forall>m \<in> set (other (houseParts st)). \<not> composite m \<Longrightarrow>
   \<forall>m \<in> set (other (houseParts (fold (visit \<sigma>) xs st))). \<not> composite m"
proof (induction xs arbitrary: st)
  case Nil
  then show ?case by simp
next
  case (Cons x xs)
  from Cons.IH [OF other_visit [OF Cons.prems]] show ?case by simp
qed


lemma count_zero5: "occurrences hp n = [0, 0, 0, 0, 0] \<Longrightarrow>
  count_list (walls hp) n = 0 \<and> count_list (roof hp) n = 0 \<and> count_list (doors hp) n = 0 \<and>
  count_list (windows hp) n = 0 \<and> count_list (other hp) n = 0"
  by (simp add: occurrences_def)


section \<open>Colouring and rendering: auxiliary facts\<close>

lemma resolved_lt: "resolved cat p = Some i \<Longrightarrow> i < length (slots p)"
  by (auto simp: resolved_def slots_def split: material_binding.splits if_splits)

lemma updatePart_apply:
  "updatePart cat c p \<sigma> r =
     (if \<exists>i. resolved cat p = Some i \<and> slots p ! i = r then (\<sigma> r)\<lparr>color := c\<rparr> else \<sigma> r)"
  by (auto simp: updatePart_def resolved_def slots_def setColor_def Let_def
      split: material_binding.splits)

lemma fold_updatePart_apply:
  "fold (updatePart cat c) ps \<sigma> r =
     (if \<exists>p \<in> set ps. \<exists>i. resolved cat p = Some i \<and> slots p ! i = r
      then (\<sigma> r)\<lparr>color := c\<rparr> else \<sigma> r)"
proof (induction ps arbitrary: \<sigma>)
  case Nil
  then show ?case by simp
next
  case (Cons p ps)
  have "fold (updatePart cat c) (p # ps) \<sigma> r = fold (updatePart cat c) ps (updatePart cat c p \<sigma>) r"
    by simp
  also have "\<dots> = (if \<exists>q \<in> set ps. \<exists>i. resolved cat q = Some i \<and> slots q ! i = r
                    then (updatePart cat c p \<sigma> r)\<lparr>color := c\<rparr> else updatePart cat c p \<sigma> r)"
    by (rule Cons.IH)
  also have "\<dots> = (if \<exists>q \<in> set (p # ps). \<exists>i. resolved cat q = Some i \<and> slots q ! i = r
                    then (\<sigma> r)\<lparr>color := c\<rparr> else \<sigma> r)"
    by (auto simp: updatePart_apply)
  finally show ?case .
qed


lemma resolved_is_resolved_slot:
  "resolved cat p = Some i \<Longrightarrow> resolved_slot cat p = Some i"
  by (auto simp: resolved_def resolved_slot_def slots_def getPartMaterialIndex_def
      material_slot_map_def split: material_binding.splits if_splits)

lemma resolved_slot_is_resolved:
  "resolved_slot cat p = Some i \<Longrightarrow>
   (\<forall>r. material p = Multi [r] \<longrightarrow> material_slot_map cat = Some 0) \<Longrightarrow>
   resolved cat p = Some i"
  by (cases "material p")
    (auto simp: resolved_def resolved_slot_def slots_def getPartMaterialIndex_def
      material_slot_map_def length_Suc_conv split: if_splits)

lemma renders_animate:
  "renders (animate now st) = renders st + of_bool (needsRender st)"
  by (simp add: animate_def Let_def)

lemma needsRender_animate: "\<not> needsRender (animate now st)"
  by (simp add: animate_def Let_def)

lemma renders_fold_clean:
  "\<not> needsRender st \<Longrightarrow> renders (fold animate ts st) = renders st \<and> \<not> needsRender (fold animate ts st)"
proof (induction ts arbitrary: st)
  case Nil
  then show ?case by simp
next
  case (Cons t ts)
  have "\<not> needsRender (animate t st)" by (rule needsRender_animate)
  from Cons.IH [OF this] Cons.prems show ?case
    by (simp add: renders_animate)
qed


lemma cottage_parts:
  "houseParts (analyzeModel white_store cottage_scene) =
     \<lparr>walls = [cottage_body], roof = [cottage_body], doors = [cottage_body],
      windows = [cottage_body], other = []\<rparr>"
  by code_simp

lemma twin_window_parts:
  "houseParts (analyzeModel white_store twin_window_scene) =
     \<lparr>walls = [wall_mesh], roof = [], doors = [],
      windows = [left_window, right_window], other = []\<rparr>"
  by code_simp

lemma window_parts:
  "houseParts (analyzeModel white_store window_scene) =
     \<lparr>walls = [mesh 1 ''walls'' (Single 0)], roof = [], doors = [],
      windows = [two_slot_window, small_window], other = []\<rparr>"
  by code_simp


section \<open>The claims\<close>

text \<open>
  C1. For every scene graph, \<open>analyzeModel\<close> lists every mesh of the graph under at least
  one of the five categories, and under exactly one, unless the composite rule applies
  (label contains "cottage" and at least four material slots): then the mesh is listed
  once under each of walls, roof, doors and windows and not under other. The nodes of a
  scene graph are distinct objects.
\<close>

theorem analyzeModel_partition:
  assumes "distinct (map oid (traverse G))" and "n \<in> set (traverse G)" and "isMesh n"
  shows "if composite n
         then occurrences (houseParts (analyzeModel \<sigma> G)) n = [1, 1, 1, 1, 0]
         else sum_list (occurrences (houseParts (analyzeModel \<sigma> G)) n) = 1"
proof -
  from assms(1) have d: "distinct (traverse G)" by (simp add: distinct_map)
  from assms(2) obtain pre post where sp: "traverse G = pre @ n # post"
    by (auto dest: split_list)
  with d have notin: "n \<notin> set pre" "n \<notin> set post" by auto
  note eqs = analyzeModel_split [OF sp notin]
  show ?thesis
  proof (cases "composite n")
    case True
    with assms(3) show ?thesis
      by (simp add: eqs(1) occurrences_visit_composite eqs(2))
  next
    case False
    with assms(3) show ?thesis
      by (simp add: eqs(1) occurrences_visit_plain eqs(2))
  qed
qed

theorem analyzeModel_partition_witness:
  "occurrences (houseParts (analyzeModel white_store cottage_scene)) cottage_body
     = [1, 1, 1, 1, 0] \<and>
   sum_list (occurrences (houseParts (analyzeModel white_store front_door_scene)) front_door) = 1"
proof -
  have d1: "distinct (map oid (traverse cottage_scene))" by code_simp
  have m1: "cottage_body \<in> set (traverse cottage_scene)" by code_simp
  have i1: "isMesh cottage_body" by code_simp
  have c1: "composite cottage_body" by code_simp
  have d2: "distinct (map oid (traverse front_door_scene))" by code_simp
  have m2: "front_door \<in> set (traverse front_door_scene)" by code_simp
  have i2: "isMesh front_door" by code_simp
  have c2: "\<not> composite front_door" by code_simp
  from analyzeModel_partition [OF d1 m1 i1, of white_store] c1
  have A: "occurrences (houseParts (analyzeModel white_store cottage_scene)) cottage_body
             = [1, 1, 1, 1, 0]"
    by simp
  from analyzeModel_partition [OF d2 m2 i2, of white_store] c2
  have B: "sum_list (occurrences (houseParts (analyzeModel white_store front_door_scene))
             front_door) = 1"
    by simp
  from A B show ?thesis by (rule conjI)
qed

text \<open>
  C2. The claim: a mesh whose label contains neither "cottage" nor "house" reaches the
  walls list through the single-composite fallback only when it is the sole mesh of the
  traversal. The callback tests the running counter \<open>meshCount === 1\<close>, which holds for
  the first mesh visited however many follow: in a scene of two meshes, "roof" then
  "walls", the mesh labelled "roof" is listed under walls and the roof list stays empty.
\<close>

theorem first_mesh_falls_back_to_walls:
  "meshCount (analyzeModel white_store roof_first_scene) = 2 \<and>
   roof_keyword (toLowerCase ''roof'') \<and>
   \<not> str_includes (toLowerCase ''roof'') ''cottage'' \<and>
   \<not> str_includes (toLowerCase ''roof'') ''house'' \<and>
   houseParts (analyzeModel white_store roof_first_scene) =
     \<lparr>walls = [mesh 1 ''roof'' (Single 0), mesh 2 ''walls'' (Single 1)],
      roof = [], doors = [], windows = [], other = []\<rparr>"
  by code_simp

text \<open>
  C3. Every mesh whose lower-cased label contains "cottage" and that has at least four
  material slots is listed under walls, roof, doors and windows, and not under other; so
  is the mesh "CottageBody" with four slots.
\<close>

theorem composite_in_all_four:
  assumes "n \<in> set (traverse G)" and "isMesh n"
    and "str_includes (toLowerCase (name n)) ''cottage''"
    and "4 \<le> materialCount_of (material n)"
  shows "n \<in> set (walls (houseParts (analyzeModel \<sigma> G))) \<and>
         n \<in> set (roof (houseParts (analyzeModel \<sigma> G))) \<and>
         n \<in> set (doors (houseParts (analyzeModel \<sigma> G))) \<and>
         n \<in> set (windows (houseParts (analyzeModel \<sigma> G))) \<and>
         n \<notin> set (other (houseParts (analyzeModel \<sigma> G)))"
proof -
  from assms(3,4) have c: "composite n" by (simp add: composite_def)
  have "\<forall>m \<in> set (other (houseParts analysis0)). \<not> composite m"
    by (simp add: analysis0_def)
  then have "\<forall>m \<in> set (other (houseParts (analyzeModel \<sigma> G))). \<not> composite m"
    unfolding analyzeModel_def by (rule other_fold)
  with c have "n \<notin> set (other (houseParts (analyzeModel \<sigma> G)))" by blast
  with four_fold_in [OF assms(1,2) c] show ?thesis by (simp add: analyzeModel_def)
qed

theorem composite_in_all_four_witness:
  "cottage_body \<in> set (walls (houseParts (analyzeModel white_store cottage_scene))) \<and>
   cottage_body \<in> set (roof (houseParts (analyzeModel white_store cottage_scene))) \<and>
   cottage_body \<in> set (doors (houseParts (analyzeModel white_store cottage_scene))) \<and>
   cottage_body \<in> set (windows (houseParts (analyzeModel white_store cottage_scene))) \<and>
   cottage_body \<notin> set (other (houseParts (analyzeModel white_store cottage_scene)))"
proof -
  have m: "cottage_body \<in> set (traverse cottage_scene)" by code_simp
  have i: "isMesh cottage_body" by code_simp
  have k: "str_includes (toLowerCase (name cottage_body)) ''cottage''" by code_simp
  have c: "4 \<le> materialCount_of (material cottage_body)" by code_simp
  show ?thesis by (rule composite_in_all_four [OF m i k c])
qed

text \<open>
  C4, as stated, fails. In a scene where the mesh "wall_a" has the material object 0 and
  the mesh "roof_b" has the one-element material array holding the same object, "roof_b"
  is the one-slot node of the roof list, yet colouring roof leaves its slot as it was
  (index 1 is not in its array); and colouring walls changes the slot of "roof_b", a node
  outside the walls list.
\<close>

theorem updatePartColor_frame_counterexample:
  "houseParts (analyzeModel white_store shared_scene) =
     \<lparr>walls = [shared_wall], roof = [shared_roof], doors = [], windows = [], other = []\<rparr> \<and>
   materialCount_of (material shared_roof) = 1 \<and>
   slot_color white_store shared_roof 0 = Some ''#ffffff'' \<and>
   read_back shared_roof 0
     (updatePartColor (houseParts (analyzeModel white_store shared_scene))
        ''roof'' ''#8B4513'' white_store) = Inr (Some ''#ffffff'') \<and>
   read_back shared_roof 0
     (updatePartColor (houseParts (analyzeModel white_store shared_scene))
        ''walls'' ''#8B4513'' white_store) = Inr (Some ''#8B4513'')"
  by code_simp

text \<open>
  C4, amended. After \<open>updatePartColor cat c\<close>, for a category of the fixed set: every
  slot resolved for \<open>cat\<close> (the single slot of a one-slot node of the list of \<open>cat\<close>,
  or the slot at the Material Slot Map's index, 0 walls, 1 roof, 2 doors, 3 windows, of a
  node of the list with several slots) reads back \<open>c\<close>, where for a node whose material is
  an array of one element this is said for walls only; and every slot of every node, in or
  outside the list, whose material object is not also the material object of a slot
  resolved for \<open>cat\<close> reads what it read before.
\<close>

theorem updatePartColor_frame:
  assumes "houseParts_lookup hp cat = Some parts"
  shows "(p \<in> set parts \<and> resolved_slot cat p = Some i \<and>
          (\<forall>r. material p = Multi [r] \<longrightarrow> material_slot_map cat = Some 0) \<longrightarrow>
            read_back p i (updatePartColor hp cat c \<sigma>) = Inr (Some c)) \<and>
         (j < length (slots n) \<and>
          (\<forall>q \<in> set parts. \<forall>k. resolved_slot cat q = Some k \<longrightarrow> slots q ! k \<noteq> slots n ! j) \<longrightarrow>
            read_back n j (updatePartColor hp cat c \<sigma>) = Inr (slot_color \<sigma> n j))"
proof (intro conjI impI)
  assume a: "p \<in> set parts \<and> resolved_slot cat p = Some i \<and>
             (\<forall>r. material p = Multi [r] \<longrightarrow> material_slot_map cat = Some 0)"
  then have r: "resolved cat p = Some i" by (simp add: resolved_slot_is_resolved)
  with a have "\<exists>q \<in> set parts. \<exists>k. resolved cat q = Some k \<and> slots q ! k = slots p ! i"
    by blast
  with resolved_lt [OF r]
  show "read_back p i (updatePartColor hp cat c \<sigma>) = Inr (Some c)"
    by (simp add: read_back_def updatePartColor_def assms slot_color_def
        fold_updatePart_apply)
next
  assume b: "j < length (slots n) \<and>
             (\<forall>q \<in> set parts. \<forall>k. resolved_slot cat q = Some k \<longrightarrow> slots q ! k \<noteq> slots n ! j)"
  then have "(\<exists>q \<in> set parts. \<exists>k. resolved cat q = Some k \<and> slots q ! k = slots n ! j) = False"
    by (blast dest: resolved_is_resolved_slot)
  then have "fold (updatePart cat c) parts \<sigma> (slots n ! j) = \<sigma> (slots n ! j)"
    by (simp only: fold_updatePart_apply if_False)
  with b show "read_back n j (updatePartColor hp cat c \<sigma>) = Inr (slot_color \<sigma> n j)"
    by (simp add: read_back_def updatePartColor_def assms slot_color_def)
qed

text \<open>
  On the four-slot composite node with four material objects, colouring walls, roof,
  doors or windows changes slot 0, 1, 2 or 3 and leaves the other three; two window
  meshes that share one material object both read back the colour given to windows.
\<close>

theorem updatePartColor_frame_witness:
  "map (\<lambda>i. read_back cottage_body i
              (updatePartColor (houseParts (analyzeModel white_store cottage_scene))
                 ''walls'' ''#D2B48C'' white_store)) [0, 1, 2, 3]
     = [Inr (Some ''#D2B48C''), Inr (Some ''#ffffff''), Inr (Some ''#ffffff''),
        Inr (Some ''#ffffff'')] \<and>
   map (\<lambda>i. read_back cottage_body i
              (updatePartColor (houseParts (analyzeModel white_store cottage_scene))
                 ''roof'' ''#8B4513'' white_store)) [0, 1, 2, 3]
     = [Inr (Some ''#ffffff''), Inr (Some ''#8B4513''), Inr (Some ''#ffffff''),
        Inr (Some ''#ffffff'')] \<and>
   map (\<lambda>i. read_back cottage_body i
              (updatePartColor (houseParts (analyzeModel white_store cottage_scene))
                 ''doors'' ''#654321'' white_store)) [0, 1, 2, 3]
     = [Inr (Some ''#ffffff''), Inr (Some ''#ffffff''), Inr (Some ''#654321''),
        Inr (Some ''#ffffff'')] \<and>
   map (\<lambda>i. read_back cottage_body i
              (updatePartColor (houseParts (analyzeModel white_store cottage_scene))
                 ''windows'' ''#87CEEB'' white_store)) [0, 1, 2, 3]
     = [Inr (Some ''#ffffff''), Inr (Some ''#ffffff''), Inr (Some ''#ffffff''),
        Inr (Some ''#87CEEB'')] \<and>
   map (\<lambda>n. read_back n 0
              (updatePartColor (houseParts (analyzeModel white_store twin_window_scene))
                 ''windows'' ''#87CEEB'' white_store))
       [wall_mesh, left_window, right_window]
     = [Inr (Some ''#ffffff''), Inr (Some ''#87CEEB''), Inr (Some ''#87CEEB'')]"
proof -
  let ?hp = "houseParts (analyzeModel white_store cottage_scene)"
  have lw: "houseParts_lookup ?hp ''walls'' = Some [cottage_body]"
    and lr: "houseParts_lookup ?hp ''roof'' = Some [cottage_body]"
    and ld: "houseParts_lookup ?hp ''doors'' = Some [cottage_body]"
    and lv: "houseParts_lookup ?hp ''windows'' = Some [cottage_body]"
    by (simp_all add: cottage_parts houseParts_lookup_def)
  have rw: "resolved_slot ''walls'' cottage_body = Some 0"
    and rr: "resolved_slot ''roof'' cottage_body = Some 1"
    and rd: "resolved_slot ''doors'' cottage_body = Some 2"
    and rv: "resolved_slot ''windows'' cottage_body = Some 3"
    by code_simp+
  have sl: "slots cottage_body = [0, 1, 2, 3]" by code_simp
  have mt: "\<forall>r. material cottage_body \<noteq> Multi [r]"
    by (simp add: cottage_body_def mesh_def)
  have wh: "slot_color white_store cottage_body 0 = Some ''#ffffff''"
    "slot_color white_store cottage_body 1 = Some ''#ffffff''"
    "slot_color white_store cottage_body 2 = Some ''#ffffff''"
    "slot_color white_store cottage_body 3 = Some ''#ffffff''"
    "slot_color white_store cottage_body (Suc 0) = Some ''#ffffff''"
    by code_simp+
  note fw = updatePartColor_frame [OF lw, where c = "''#D2B48C''" and \<sigma> = white_store
      and p = cottage_body and n = cottage_body]
  note fr = updatePartColor_frame [OF lr, where c = "''#8B4513''" and \<sigma> = white_store
      and p = cottage_body and n = cottage_body]
  note fd = updatePartColor_frame [OF ld, where c = "''#654321''" and \<sigma> = white_store
      and p = cottage_body and n = cottage_body]
  note fv = updatePartColor_frame [OF lv, where c = "''#87CEEB''" and \<sigma> = white_store
      and p = cottage_body and n = cottage_body]
  have W: "map (\<lambda>i. read_back cottage_body i (updatePartColor ?hp ''walls'' ''#D2B48C''
             white_store)) [0, 1, 2, 3]
           = [Inr (Some ''#D2B48C''), Inr (Some ''#ffffff''), Inr (Some ''#ffffff''),
              Inr (Some ''#ffffff'')]"
    using fw [where i = 0 and j = 1] fw [where i = 0 and j = 2] fw [where i = 0 and j = 3]
    by (simp add: rw sl mt wh)
  have R: "map (\<lambda>i. read_back cottage_body i (updatePartColor ?hp ''roof'' ''#8B4513''
             white_store)) [0, 1, 2, 3]
           = [Inr (Some ''#ffffff''), Inr (Some ''#8B4513''), Inr (Some ''#ffffff''),
              Inr (Some ''#ffffff'')]"
    using fr [where i = 1 and j = 0] fr [where i = 1 and j = 2] fr [where i = 1 and j = 3]
    by (simp add: rr sl mt wh)
  have D: "map (\<lambda>i. read_back cottage_body i (updatePartColor ?hp ''doors'' ''#654321''
             white_store)) [0, 1, 2, 3]
           = [Inr (Some ''#ffffff''), Inr (Some ''#ffffff''), Inr (Some ''#654321''),
              Inr (Some ''#ffffff'')]"
    using fd [where i = 2 and j = 0] fd [where i = 2 and j = 1] fd [where i = 2 and j = 3]
    by (simp add: rd sl mt wh)
  have V: "map (\<lambda>i. read_back cottage_body i (updatePartColor ?hp ''windows'' ''#87CEEB''
             white_store)) [0, 1, 2, 3]
           = [Inr (Some ''#ffffff''), Inr (Some ''#ffffff''), Inr (Some ''#ffffff''),
              Inr (Some ''#87CEEB'')]"
    using fv [where i = 3 and j = 0] fv [where i = 3 and j = 1] fv [where i = 3 and j = 2]
    by (simp add: rv sl mt wh)
  let ?tp = "houseParts (analyzeModel white_store twin_window_scene)"
  have lt: "houseParts_lookup ?tp ''windows'' = Some [left_window, right_window]"
    by (simp add: twin_window_parts houseParts_lookup_def)
  have rl: "resolved_slot ''windows'' left_window = Some 0"
    and rrw: "resolved_slot ''windows'' right_window = Some 0"
    by code_simp+
  have ml: "\<forall>r. material left_window \<noteq> Multi [r]" "\<forall>r. material right_window \<noteq> Multi [r]"
    by (simp_all add: left_window_def right_window_def mesh_def)
  have st: "slots left_window = [1]" "slots right_window = [1]"
    "slots wall_mesh = [0]"
    by code_simp+
  have ww: "slot_color white_store wall_mesh 0 = Some ''#ffffff''"
    by code_simp
  note ft = updatePartColor_frame [OF lt, where c = "''#87CEEB''" and \<sigma> = white_store]
  have T: "map (\<lambda>n. read_back n 0 (updatePartColor ?tp ''windows'' ''#87CEEB'' white_store))
             [wall_mesh, left_window, right_window]
           = [Inr (Some ''#ffffff''), Inr (Some ''#87CEEB''), Inr (Some ''#87CEEB'')]"
    using ft [where p = left_window and i = 0 and n = "wall_mesh" and j = 0]
      ft [where p = right_window and i = 0 and n = "wall_mesh" and j = 0]
    by (simp add: rl rrw ml st ww)
  from W R D V T show ?thesis by (intro conjI)
qed

text \<open>
  C5. On a node whose material is an array, when the category has no index in the
  Material Slot Map or the index is not a position of the array, the step of
  \<open>updatePartColor\<close> for this node returns the store as it was; the call does not fail and
  gives what it gives on the list without this node, so the remaining nodes are
  processed. Whatever the index, the step writes no material object but the mapped one.
\<close>

theorem unresolvable_slot_skipped:
  assumes "material part = Multi rs"
  shows "(getPartMaterialIndex cat < 0 \<or> int (length rs) \<le> getPartMaterialIndex cat \<longrightarrow>
            updatePart cat c part \<sigma> = \<sigma> \<and>
            (houseParts_lookup hp cat = Some (pre @ part # post) \<and>
             houseParts_lookup hp' cat = Some (pre @ post) \<longrightarrow>
               (\<exists>\<sigma>'. updatePartColor hp cat c \<sigma> = Inr \<sigma>' \<and>
                     updatePartColor hp' cat c \<sigma> = Inr \<sigma>'))) \<and>
         (\<forall>r. updatePart cat c part \<sigma> r \<noteq> \<sigma> r \<longrightarrow>
            0 \<le> getPartMaterialIndex cat \<and> getPartMaterialIndex cat < int (length rs) \<and>
            r = rs ! nat (getPartMaterialIndex cat))"
proof -
  have skip: "updatePart cat c part \<sigma>0 = \<sigma>0"
    if "getPartMaterialIndex cat < 0 \<or> int (length rs) \<le> getPartMaterialIndex cat" for \<sigma>0
    using that assms by (auto simp: updatePart_def Let_def)
  have frame: "\<forall>r. updatePart cat c part \<sigma> r \<noteq> \<sigma> r \<longrightarrow>
            0 \<le> getPartMaterialIndex cat \<and> getPartMaterialIndex cat < int (length rs) \<and>
            r = rs ! nat (getPartMaterialIndex cat)"
    using assms by (auto simp: updatePart_def Let_def setColor_def)
  from skip frame show ?thesis
    by (auto simp: updatePartColor_def)
qed

theorem unresolvable_slot_skipped_witness:
  "updatePart ''windows'' ''#87CEEB'' two_slot_window white_store = white_store \<and>
   (\<exists>\<sigma>'. updatePartColor (houseParts (analyzeModel white_store window_scene))
            ''windows'' ''#87CEEB'' white_store = Inr \<sigma>' \<and>
         updatePartColor
           ((houseParts (analyzeModel white_store window_scene))\<lparr>windows := [small_window]\<rparr>)
            ''windows'' ''#87CEEB'' white_store = Inr \<sigma>') \<and>
   read_back small_window 0
     (updatePartColor (houseParts (analyzeModel white_store window_scene))
        ''windows'' ''#87CEEB'' white_store) = Inr (Some ''#87CEEB'')"
proof -
  have m: "material two_slot_window = Multi [1, 2]" by code_simp
  have i: "getPartMaterialIndex ''windows'' < 0
           \<or> int (length [1, 2 :: nat]) \<le> getPartMaterialIndex ''windows''"
    by (simp add: getPartMaterialIndex_def)
  have l: "houseParts_lookup (houseParts (analyzeModel white_store window_scene)) ''windows''
             = Some ([] @ two_slot_window # [small_window])"
    by (simp add: window_parts houseParts_lookup_def)
  have l': "houseParts_lookup
              ((houseParts (analyzeModel white_store window_scene))\<lparr>windows := [small_window]\<rparr>)
              ''windows'' = Some ([] @ [small_window])"
    by (simp add: houseParts_lookup_def)
  have rest: "read_back small_window 0
     (updatePartColor (houseParts (analyzeModel white_store window_scene))
        ''windows'' ''#87CEEB'' white_store) = Inr (Some ''#87CEEB'')"
    by code_simp
  from unresolvable_slot_skipped [OF m, of "''windows''" "''#87CEEB''" white_store
      "houseParts (analyzeModel white_store window_scene)" "[]" "[small_window]"
      "(houseParts (analyzeModel white_store window_scene))\<lparr>windows := [small_window]\<rparr>"]
    i l l' rest
  show ?thesis by blast
qed



text \<open>
  C7. Every call of \<open>animate\<close> requests the next frame, whatever the flag. It draws
  exactly when \<open>needsRender\<close> is set and leaves the flag cleared, so the next call, and
  any number of calls after it with no \<open>requestRender\<close> between them, draw nothing;
  \<open>requestRender\<close> sets the flag.
\<close>

theorem draw_only_when_dirty:
  "rafRequests (animate now st) = rafRequests st + 1 \<and>
   renders (animate now st) = renders st + of_bool (needsRender st) \<and>
   needsRender (animate now st) = False \<and>
   renders (animate now' (animate now st)) = renders (animate now st) \<and>
   renders (fold animate ts (animate now st)) = renders (animate now st) \<and>
   needsRender (requestRender st) = True"
  using renders_fold_clean [OF needsRender_animate, of ts now st]
  by (simp add: renders_animate needsRender_animate requestRender_def)
    (simp add: animate_def Let_def)

text \<open>
  C8, as stated, fails: the mesh "FrontDoor_Glass" matches the doors keyword "door" and
  the windows keyword "glass", and as the only mesh of its scene it is listed under walls.
\<close>

theorem keyword_order_counterexample:
  "doors_keyword (toLowerCase (name front_door)) \<and>
   windows_keyword (toLowerCase (name front_door)) \<and>
   houseParts (analyzeModel white_store front_door_alone) =
     \<lparr>walls = [front_door], roof = [], doors = [], windows = [], other = []\<rparr>"
  by code_simp

text \<open>
  C8, amended. A mesh that is visited after another mesh and whose lower-cased label
  contains neither "cottage" nor "house" is listed once, under the first category in the
  order walls, roof, doors, windows whose keyword set its label matches; "FrontDoor_Glass",
  visited after another mesh, is listed under doors.
\<close>

theorem keyword_order:
  assumes "traverse G = pre @ n # post" and "\<exists>m \<in> set pre. isMesh m" and "isMesh n"
    and "distinct (map oid (traverse G))"
    and "\<not> str_includes (toLowerCase (name n)) ''cottage''"
    and "\<not> str_includes (toLowerCase (name n)) ''house''"
  shows "(walls_keyword (toLowerCase (name n)) \<longrightarrow>
            occurrences (houseParts (analyzeModel \<sigma> G)) n = [1, 0, 0, 0, 0]) \<and>
         (\<not> walls_keyword (toLowerCase (name n)) \<and> roof_keyword (toLowerCase (name n)) \<longrightarrow>
            occurrences (houseParts (analyzeModel \<sigma> G)) n = [0, 1, 0, 0, 0]) \<and>
         (\<not> walls_keyword (toLowerCase (name n)) \<and> \<not> roof_keyword (toLowerCase (name n)) \<and>
          doors_keyword (toLowerCase (name n)) \<longrightarrow>
            occurrences (houseParts (analyzeModel \<sigma> G)) n = [0, 0, 1, 0, 0]) \<and>
         (\<not> walls_keyword (toLowerCase (name n)) \<and> \<not> roof_keyword (toLowerCase (name n)) \<and>
          \<not> doors_keyword (toLowerCase (name n)) \<and> windows_keyword (toLowerCase (name n)) \<longrightarrow>
            occurrences (houseParts (analyzeModel \<sigma> G)) n = [0, 0, 0, 1, 0])"
proof -
  from assms(4) have d: "distinct (traverse G)" by (simp add: distinct_map)
  with assms(1) have notin: "n \<notin> set pre" "n \<notin> set post" by auto
  note eqs = analyzeModel_split [OF assms(1) notin]
  from assms(2) have "filter isMesh pre \<noteq> []" by (auto simp: filter_empty_conv)
  then have mc: "meshCount (fold (visit \<sigma>) pre analysis0) \<noteq> 0"
    by (simp add: meshCount_fold)
  from assms(5) have nc: "\<not> composite n" by (simp add: composite_def)
  note z = count_zero5 [OF eqs(2) [of \<sigma>]]
  show ?thesis
    unfolding eqs(1)
    using assms(3,5,6) mc nc z
    by (simp add: houseParts_visit Let_def occurrences_def)
qed

theorem keyword_order_witness:
  "doors_keyword (toLowerCase (name front_door)) \<and>
   windows_keyword (toLowerCase (name front_door)) \<and>
   occurrences (houseParts (analyzeModel white_store front_door_scene)) front_door
     = [0, 0, 1, 0, 0]"
proof -
  have t: "traverse front_door_scene = [group 0, mesh 1 ''walls'' (Single 0)] @ front_door # []"
    by code_simp
  have e: "\<exists>m \<in> set [group 0, mesh 1 ''walls'' (Single 0)]. isMesh m" by code_simp
  have i: "isMesh front_door" by code_simp
  have d: "distinct (map oid (traverse front_door_scene))" by code_simp
  have c: "\<not> str_includes (toLowerCase (name front_door)) ''cottage''" by code_simp
  have h: "\<not> str_includes (toLowerCase (name front_door)) ''house''" by code_simp
  have w: "\<not> walls_keyword (toLowerCase (name front_door))" by code_simp
  have r: "\<not> roof_keyword (toLowerCase (name front_door))" by code_simp
  have dk: "doors_keyword (toLowerCase (name front_door))" by code_simp
  have wk: "windows_keyword (toLowerCase (name front_door))" by code_simp
  from keyword_order [OF t e i d c h, of white_store] w r dk wk
  show ?thesis by blast
qed

text \<open>
  C9. For a category of the fixed set whose list is empty, \<open>updatePartColor\<close> returns
  normally and the store is the one it was given.
\<close>

theorem empty_category_noop:
  "houseParts_lookup hp cat = Some [] \<Longrightarrow> updatePartColor hp cat c \<sigma> = Inr \<sigma>"
  by (simp add: updatePartColor_def)

theorem empty_category_noop_witness:
  "updatePartColor (houseParts (analyzeModel white_store cottage_scene))
     ''other'' ''#8B4513'' white_store = Inr white_store"
proof -
  have l: "houseParts_lookup (houseParts (analyzeModel white_store cottage_scene)) ''other''
             = Some []"
    by (simp add: cottage_parts houseParts_lookup_def)
  show ?thesis by (rule empty_category_noop [OF l])
qed

text \<open>
  C10. For every string outside walls, roof, doors, windows and other, \<open>updatePartColor\<close>
  fails with a \<open>TypeError\<close>: the lookup in the part index gives no array.
\<close>

theorem unknown_category_fails:
  "s \<notin> {''walls'', ''roof'', ''doors'', ''windows'', ''other''} \<Longrightarrow>
   updatePartColor hp s c \<sigma> = Inl TypeError"
  by (simp add: updatePartColor_def houseParts_lookup_def)

theorem unknown_category_fails_witness:
  "updatePartColor (houseParts (analyzeModel white_store cottage_scene))
     ''garage'' ''#8B4513'' white_store = Inl TypeError"
proof -
  have n: "''garage'' \<notin> {''walls'', ''roof'', ''doors'', ''windows'', ''other''}" by simp
  show ?thesis by (rule unknown_category_fails [OF n])
qed

end
